theory Spec2Isabelle
  imports
    Complex_Main
    "HOL-Library.Char_ord"
    "HOL-Library.List_Lexorder"
    "HOL-Library.Product_Lexorder"
    "HOL-Library.Multiset"
begin

section \<open>Data model\<close>

text \<open>
  The three input record types of \<^verbatim>\<open>parser/excel_parser.py\<close> (\<^verbatim>\<open>DailyEquity\<close>,
  \<^verbatim>\<open>Position\<close>, \<^verbatim>\<open>Trade\<close>), which the engines receive as dictionaries with the same
  keys. Python \<^verbatim>\<open>str\<close> is \<open>string\<close> (the UTF-8 bytes; their lexicographic order is
  Python's code-point order), \<^verbatim>\<open>int\<close> is \<open>int\<close>. An input \<^verbatim>\<open>float\<close> is a finite number,
  modelled by \<open>real\<close>: binary rounding, overflow and signed zeros are not modelled.
\<close>

record daily_equity =
  eq_strategy_code :: string
  eq_trade_date :: string
  eq_prev_balance :: real
  eq_deposit_withdraw :: real
  eq_realized_pnl :: real
  eq_commission :: real
  eq_current_balance :: real
  eq_floating_pnl :: real
  eq_equity :: real
  eq_margin_used :: real
  eq_available_funds :: real
  eq_risk_degree :: real

record position =
  pos_strategy_code :: string
  pos_trade_date :: string
  pos_contract :: string
  pos_long_qty :: int
  pos_long_price :: real
  pos_short_qty :: int
  pos_short_price :: real
  pos_prev_settlement :: real
  pos_settlement :: real
  pos_floating_pnl :: real
  pos_position_value :: real
  pos_margin :: real
  pos_exchange :: string
  pos_open_date :: string

record trade =
  trd_strategy_code :: string
  trd_trade_date :: string
  trd_contract :: string
  trd_trade_id :: string
  trd_trade_time :: string
  trd_direction :: string
  trd_offset_flag :: string
  trd_price :: real
  trd_quantity :: int
  trd_amount :: real
  trd_commission :: real
  trd_realized_pnl :: real
  trd_exchange :: string

text \<open>
  The string literals the detectors compare against are Chinese words; they are given
  here by their UTF-8 bytes: \<^verbatim>\<open>kai1 cang1\<close> (open a position), \<^verbatim>\<open>mai3\<close> (buy),
  \<^verbatim>\<open>mai4\<close> (sell).
\<close>

definition offset_open :: string where
  "offset_open = [CHR 0xE5, CHR 0xBC, CHR 0x80, CHR 0xE4, CHR 0xBB, CHR 0x93]"

definition direction_buy :: string where
  "direction_buy = [CHR 0xE4, CHR 0xB9, CHR 0xB0]"

definition direction_sell :: string where
  "direction_sell = [CHR 0xE5, CHR 0x8D, CHR 0x96]"

section \<open>Python and pandas primitives\<close>

text \<open>
  \<^verbatim>\<open>round(x, n)\<close> on a finite number: the nearest multiple of \<open>10^-n\<close>, a tie going to
  the even one.
\<close>

definition round_half_even :: "real \<Rightarrow> int" where
  "round_half_even x =
     (let f = \<lfloor>x\<rfloor>; d = x - of_int f in
      if d < 1 / 2 then f else if d > 1 / 2 then f + 1 else if even f then f else f + 1)"

definition py_round :: "real \<Rightarrow> nat \<Rightarrow> real" where
  "py_round x n = of_int (round_half_even (x * 10 ^ n)) / 10 ^ n"

text \<open>\<^verbatim>\<open>Series.unique()\<close>: the distinct values in order of first appearance.\<close>

definition unique :: "'a list \<Rightarrow> 'a list" where
  "unique xs = rev (remdups (rev xs))"

text \<open>
  \<^verbatim>\<open>list.sort(key=..., reverse=True)\<close> and \<^verbatim>\<open>sorted(..., reverse=True)\<close>: descending
  by key, elements of equal key keeping their original order.
\<close>

definition sort_reverse :: "('a \<Rightarrow> 'k::linorder) \<Rightarrow> 'a list \<Rightarrow> 'a list" where
  "sort_reverse key xs = rev (sort_key key (rev xs))"

section \<open>Behaviour detector (\<^verbatim>\<open>detector/behavior_detector.py\<close>)\<close>

text \<open>
  The \<^verbatim>\<open>details\<close> dictionary of an alert has one of two shapes, one per detector. The
  \<^verbatim>\<open>description\<close> is an f-string; the model keeps the values interpolated into it, not
  the formatted text.
\<close>

record floating_loss_details =
  fd_floating_pnl :: real
  fd_loss_ratio :: real
  fd_add_quantity :: int
  fd_add_direction :: string
  fd_add_price :: real
  fd_position_value :: real

record counter_trend_details =
  cd_direction :: string
  cd_price_change :: real
  cd_change_pct :: real
  cd_quantity :: int
  cd_price :: real
  cd_settlement :: real
  cd_prev_settlement :: real

datatype details =
  FloatingLossDetails floating_loss_details
| CounterTrendDetails counter_trend_details

datatype trend_desc = NoTrend | FallBuy real | RiseSell real

datatype description =
  FloatingLossText string real real int
| CounterTrendText string trend_desc int

record behavior_alert =
  al_strategy_code :: string
  al_trade_date :: string
  al_alert_type :: string
  al_severity :: string
  al_contract :: string
  al_description :: description
  al_details :: details

subsection \<open>\<^verbatim>\<open>detect_floating_loss_add\<close>\<close>

text \<open>The body of the loop over the day's opening trades (source lines 77 to 119).\<close>

definition floating_loss_check ::
  "string \<Rightarrow> string \<Rightarrow> position list \<Rightarrow> trade \<Rightarrow> behavior_alert list" where
  "floating_loss_check strategy_code trade_date day_positions trade =
     (let contract = trd_contract trade;
          contract_positions = filter (\<lambda>p. pos_contract p = contract) day_positions
      in if contract_positions = [] then []
         else
           let total_floating_pnl = sum_list (map pos_floating_pnl contract_positions)
           in if total_floating_pnl < 0 then
                let position_value = sum_list (map pos_position_value contract_positions);
                    loss_ratio = (if position_value > 0
                                  then \<bar>total_floating_pnl\<bar> / position_value else 0);
                    severity = (if loss_ratio > 0.05 then ''high''
                                else if loss_ratio > 0.02 then ''medium'' else ''low'')
                in [\<lparr>al_strategy_code = strategy_code,
                     al_trade_date = trade_date,
                     al_alert_type = ''floating_loss_add'',
                     al_severity = severity,
                     al_contract = contract,
                     al_description = FloatingLossText contract \<bar>total_floating_pnl\<bar>
                                        loss_ratio (trd_quantity trade),
                     al_details = FloatingLossDetails
                       \<lparr>fd_floating_pnl = py_round total_floating_pnl 2,
                        fd_loss_ratio = py_round loss_ratio 4,
                        fd_add_quantity = trd_quantity trade,
                        fd_add_direction = trd_direction trade,
                        fd_add_price = trd_price trade,
                        fd_position_value = py_round position_value 2\<rparr>\<rparr>]
              else [])"

text \<open>The body of the loop over all dates, for one strategy (source lines 61 to 119).\<close>

definition floating_loss_day ::
  "string \<Rightarrow> position list \<Rightarrow> trade list \<Rightarrow> string \<Rightarrow> behavior_alert list" where
  "floating_loss_day strategy_code strategy_positions strategy_trades trade_date =
     (let day_positions = filter (\<lambda>p. pos_trade_date p = trade_date) strategy_positions;
          day_trades = filter (\<lambda>t. trd_trade_date t = trade_date
                                    \<and> trd_offset_flag t = offset_open) strategy_trades
      in if day_positions = [] \<or> day_trades = [] then []
         else concat (map (floating_loss_check strategy_code trade_date day_positions)
                          day_trades))"

definition detect_floating_loss_add ::
  "position list \<Rightarrow> trade list \<Rightarrow> daily_equity list \<Rightarrow> behavior_alert list" where
  "detect_floating_loss_add positions trades equity_data =
     (if positions = [] \<or> trades = [] then []
      else
        let all_dates = sort (unique (map pos_trade_date positions))
        in concat (map (\<lambda>strategy_code.
              let strategy_positions =
                    filter (\<lambda>p. pos_strategy_code p = strategy_code) positions;
                  strategy_trades =
                    filter (\<lambda>t. trd_strategy_code t = strategy_code) trades
              in concat (map (floating_loss_day strategy_code strategy_positions
                                strategy_trades) all_dates))
            (unique (map pos_strategy_code positions))))"

subsection \<open>\<^verbatim>\<open>detect_counter_trend_add\<close>\<close>

record price_info =
  pi_settlement :: real
  pi_prev_settlement :: real
  pi_change :: real
  pi_change_pct :: real

type_synonym price_history = "string \<rightharpoonup> (string \<rightharpoonup> price_info)"

text \<open>One step of the loop that builds \<^verbatim>\<open>price_history\<close> (source lines 155 to 168).\<close>

definition price_history_add :: "price_history \<Rightarrow> position \<Rightarrow> price_history" where
  "price_history_add price_history pos =
     (let contract = pos_contract pos;
          trade_date = pos_trade_date pos;
          settlement = pos_settlement pos;
          prev_settlement = pos_prev_settlement pos;
          inner = (case price_history contract of None \<Rightarrow> Map.empty | Some m \<Rightarrow> m)
      in price_history(contract \<mapsto> inner(trade_date \<mapsto>
           \<lparr>pi_settlement = settlement,
            pi_prev_settlement = prev_settlement,
            pi_change = (if prev_settlement > 0 then settlement - prev_settlement else 0),
            pi_change_pct = (if prev_settlement > 0
                             then (settlement - prev_settlement) / prev_settlement
                             else 0)\<rparr>)))"

definition build_price_history :: "position list \<Rightarrow> price_history" where
  "build_price_history strategy_positions = foldl price_history_add Map.empty strategy_positions"

text \<open>The body of the loop over the strategy's trades (source lines 171 to 224).\<close>

definition counter_trend_check ::
  "string \<Rightarrow> price_history \<Rightarrow> trade \<Rightarrow> behavior_alert list" where
  "counter_trend_check strategy_code price_history trade =
     (if trd_offset_flag trade \<noteq> offset_open then []
      else
        let contract = trd_contract trade;
            trade_date = trd_trade_date trade;
            direction = trd_direction trade
        in case price_history contract of
             None \<Rightarrow> []
           | Some by_date \<Rightarrow>
              (case by_date trade_date of
                 None \<Rightarrow> []
               | Some price_info \<Rightarrow>
                  let price_change = pi_change price_info;
                      change_pct = pi_change_pct price_info;
                      (is_counter_trend, trend_desc) =
                        (if direction = direction_buy \<and> price_change < 0
                         then (True, FallBuy \<bar>change_pct\<bar>)
                         else if direction = direction_sell \<and> price_change > 0
                         then (True, RiseSell change_pct)
                         else (False, NoTrend))
                  in if is_counter_trend then
                       let severity = (if \<bar>change_pct\<bar> > 0.03 then ''high''
                                       else if \<bar>change_pct\<bar> > 0.015 then ''medium''
                                       else ''low'')
                       in [\<lparr>al_strategy_code = strategy_code,
                            al_trade_date = trade_date,
                            al_alert_type = ''counter_trend_add'',
                            al_severity = severity,
                            al_contract = contract,
                            al_description = CounterTrendText contract trend_desc
                                               (trd_quantity trade),
                            al_details = CounterTrendDetails
                              \<lparr>cd_direction = direction,
                               cd_price_change = py_round price_change 2,
                               cd_change_pct = py_round change_pct 4,
                               cd_quantity = trd_quantity trade,
                               cd_price = trd_price trade,
                               cd_settlement = pi_settlement price_info,
                               cd_prev_settlement = pi_prev_settlement price_info\<rparr>\<rparr>]
                     else []))"

definition detect_counter_trend_add ::
  "position list \<Rightarrow> trade list \<Rightarrow> behavior_alert list" where
  "detect_counter_trend_add positions trades =
     (if positions = [] \<or> trades = [] then []
      else concat (map (\<lambda>strategy_code.
             let strategy_positions =
                   filter (\<lambda>p. pos_strategy_code p = strategy_code) positions;
                 strategy_trades =
                   filter (\<lambda>t. trd_strategy_code t = strategy_code) trades;
                 price_history = build_price_history strategy_positions
             in concat (map (counter_trend_check strategy_code price_history)
                            strategy_trades))
           (unique (map pos_strategy_code positions))))"

subsection \<open>\<^verbatim>\<open>detect_all\<close>\<close>

text \<open>
  \<^verbatim>\<open>alerts_by_strategy\<close> is a dictionary; it is modelled by an association list in
  insertion order, the order in which Python iterates it.
\<close>

fun group_append ::
  "(string \<times> behavior_alert list) list \<Rightarrow> behavior_alert \<Rightarrow> (string \<times> behavior_alert list) list"
  where
  "group_append [] alert = [(al_strategy_code alert, [alert])]"
| "group_append ((k, v) # kvs) alert =
     (if k = al_strategy_code alert then (k, v @ [alert]) # kvs
      else (k, v) # group_append kvs alert)"

definition severity_order :: "string \<Rightarrow> nat" where
  "severity_order s =
     (if s = ''high'' then 0 else if s = ''medium'' then 1 else if s = ''low'' then 2 else 3)"

definition alert_sort_key :: "behavior_alert \<Rightarrow> string \<times> nat" where
  "alert_sort_key x = (al_trade_date x, severity_order (al_severity x))"

definition detect_all ::
  "position list \<Rightarrow> trade list \<Rightarrow> daily_equity list \<Rightarrow> (string \<times> behavior_alert list) list"
  where
  "detect_all positions trades equity_data =
     (let floating_loss_alerts = detect_floating_loss_add positions trades equity_data;
          counter_trend_alerts = detect_counter_trend_add positions trades;
          all_alerts = floating_loss_alerts @ counter_trend_alerts;
          alerts_by_strategy = foldl group_append [] all_alerts
      in map (\<lambda>(strategy_code, alerts). (strategy_code, sort_reverse alert_sort_key alerts))
             alerts_by_strategy)"

section \<open>Floating-point values of pandas and numpy\<close>

text \<open>
  The columns that \<^verbatim>\<open>calculate_daily_returns\<close> derives are numpy \<^verbatim>\<open>float64\<close> values,
  where a division by zero does not raise: it yields an infinity or NaN, and NaN marks a
  missing value. A value is a finite number, an infinity or NaN; the operations follow
  IEEE 754 on these four kinds. Binary rounding, overflow of finite results and the sign of
  zero are not modelled: a zero divisor counts as positive zero.
\<close>

datatype pyfloat = Fin real | PInf | NInf | NaN

fun fneg :: "pyfloat \<Rightarrow> pyfloat" where
  "fneg (Fin x) = Fin (- x)"
| "fneg PInf = NInf"
| "fneg NInf = PInf"
| "fneg NaN = NaN"

fun fadd :: "pyfloat \<Rightarrow> pyfloat \<Rightarrow> pyfloat" where
  "fadd NaN _ = NaN"
| "fadd _ NaN = NaN"
| "fadd (Fin x) (Fin y) = Fin (x + y)"
| "fadd PInf NInf = NaN"
| "fadd NInf PInf = NaN"
| "fadd PInf _ = PInf"
| "fadd _ PInf = PInf"
| "fadd NInf _ = NInf"
| "fadd _ NInf = NInf"

definition fsub :: "pyfloat \<Rightarrow> pyfloat \<Rightarrow> pyfloat" where
  "fsub a b = fadd a (fneg b)"

fun fsign :: "pyfloat \<Rightarrow> int" where
  "fsign (Fin x) = (if x > 0 then 1 else if x < 0 then - 1 else 0)"
| "fsign PInf = 1"
| "fsign NInf = - 1"
| "fsign NaN = 0"

fun fmul :: "pyfloat \<Rightarrow> pyfloat \<Rightarrow> pyfloat" where
  "fmul NaN _ = NaN"
| "fmul _ NaN = NaN"
| "fmul (Fin x) (Fin y) = Fin (x * y)"
| "fmul a b =
     (let s = fsign a * fsign b in if s = 0 then NaN else if s > 0 then PInf else NInf)"

fun fdiv :: "pyfloat \<Rightarrow> pyfloat \<Rightarrow> pyfloat" where
  "fdiv NaN _ = NaN"
| "fdiv _ NaN = NaN"
| "fdiv (Fin x) (Fin y) =
     (if y = 0 then (if x = 0 then NaN else if x > 0 then PInf else NInf)
      else Fin (x / y))"
| "fdiv (Fin x) _ = Fin 0"
| "fdiv a (Fin y) = (if y \<ge> 0 then a else fneg a)"
| "fdiv _ _ = NaN"

fun fsqrt :: "pyfloat \<Rightarrow> pyfloat" where
  "fsqrt (Fin x) = (if x \<ge> 0 then Fin (sqrt x) else NaN)"
| "fsqrt PInf = PInf"
| "fsqrt NInf = NaN"
| "fsqrt NaN = NaN"

text \<open>\<open>flt a b\<close> is the comparison \<^verbatim>\<open>a < b\<close>: false as soon as one side is NaN.\<close>

fun flt :: "pyfloat \<Rightarrow> pyfloat \<Rightarrow> bool" where
  "flt NaN _ = False"
| "flt _ NaN = False"
| "flt (Fin x) (Fin y) = (x < y)"
| "flt NInf NInf = False"
| "flt NInf _ = True"
| "flt _ NInf = False"
| "flt PInf _ = False"
| "flt _ PInf = True"

definition isnan :: "pyfloat \<Rightarrow> bool" where
  "isnan x = (x = NaN)"

text \<open>\<open>fne a b\<close> is \<^verbatim>\<open>a != b\<close>: true as soon as one side is NaN.\<close>

definition fne :: "pyfloat \<Rightarrow> pyfloat \<Rightarrow> bool" where
  "fne a b = (if isnan a then True else if isnan b then True else a \<noteq> b)"

text \<open>
  The builtins \<^verbatim>\<open>max(a, b)\<close> and \<^verbatim>\<open>min(a, b)\<close> keep the first argument unless the second
  compares strictly greater (smaller).
\<close>

definition py_max :: "pyfloat \<Rightarrow> pyfloat \<Rightarrow> pyfloat" where
  "py_max a b = (if flt a b then b else a)"

definition py_min :: "pyfloat \<Rightarrow> pyfloat \<Rightarrow> pyfloat" where
  "py_min a b = (if flt b a then b else a)"

text \<open>\<^verbatim>\<open>round(x, n)\<close> leaves an infinity and NaN unchanged.\<close>

fun fround :: "pyfloat \<Rightarrow> nat \<Rightarrow> pyfloat" where
  "fround (Fin x) n = Fin (py_round x n)"
| "fround a n = a"

definition fsum :: "pyfloat list \<Rightarrow> pyfloat" where
  "fsum xs = foldl fadd (Fin 0) xs"

text \<open>\<^verbatim>\<open>Series.shift(1)\<close>: every value moves down one row, the first row is missing.\<close>

definition pd_shift :: "pyfloat list \<Rightarrow> pyfloat list" where
  "pd_shift xs = (if xs = [] then [] else NaN # butlast xs)"

text \<open>
  \<^verbatim>\<open>Series.cumprod()\<close> and \<^verbatim>\<open>Series.cummax()\<close> skip missing values: a NaN row stays NaN
  and does not change the accumulator.
\<close>

fun cumprod_from :: "pyfloat \<Rightarrow> pyfloat list \<Rightarrow> pyfloat list" where
  "cumprod_from acc [] = []"
| "cumprod_from acc (x # xs) =
     (if isnan x then NaN # cumprod_from acc xs
      else fmul acc x # cumprod_from (fmul acc x) xs)"

definition pd_cumprod :: "pyfloat list \<Rightarrow> pyfloat list" where
  "pd_cumprod xs = cumprod_from (Fin 1) xs"

definition fmax :: "pyfloat \<Rightarrow> pyfloat \<Rightarrow> pyfloat" where
  "fmax a b = (if flt a b then b else a)"

fun cummax_from :: "pyfloat \<Rightarrow> pyfloat list \<Rightarrow> pyfloat list" where
  "cummax_from acc [] = []"
| "cummax_from acc (x # xs) =
     (if isnan x then NaN # cummax_from acc xs
      else fmax acc x # cummax_from (fmax acc x) xs)"

definition pd_cummax :: "pyfloat list \<Rightarrow> pyfloat list" where
  "pd_cummax xs = cummax_from NInf xs"

text \<open>
  \<^verbatim>\<open>Series.max()\<close>, \<^verbatim>\<open>Series.mean()\<close> and \<^verbatim>\<open>Series.std()\<close> (sample standard deviation,
  \<^verbatim>\<open>ddof=1\<close>) drop the missing values first; they are NaN when too few values remain.
\<close>

definition pd_max :: "pyfloat list \<Rightarrow> pyfloat" where
  "pd_max xs =
     (let vals = filter (\<lambda>x. \<not> isnan x) xs
      in if vals = [] then NaN else foldl fmax NInf vals)"

definition pd_mean :: "pyfloat list \<Rightarrow> pyfloat" where
  "pd_mean xs =
     (let vals = filter (\<lambda>x. \<not> isnan x) xs
      in if vals = [] then NaN else fdiv (fsum vals) (Fin (real (length vals))))"

definition pd_std :: "pyfloat list \<Rightarrow> pyfloat" where
  "pd_std xs =
     (let vals = filter (\<lambda>x. \<not> isnan x) xs;
          count = length vals
      in if count \<le> 1 then NaN
         else
           let avg = fdiv (fsum vals) (Fin (real count));
               sqr = map (\<lambda>v. fmul (fsub avg v) (fsub avg v)) vals
           in fsqrt (fdiv (fsum sqr) (Fin (real count - 1))))"

text \<open>Python operations that raise: \<^verbatim>\<open>/\<close> on a zero divisor, an index out of range.\<close>

datatype py_error = ZeroDivisionError | IndexError

definition py_truediv :: "real \<Rightarrow> real \<Rightarrow> py_error + real" where
  "py_truediv a b = (if b = 0 then Inl ZeroDivisionError else Inr (a / b))"

definition iloc_last :: "'a list \<Rightarrow> py_error + 'a" where
  "iloc_last xs = (if xs = [] then Inl IndexError else Inr (last xs))"

definition bind_err :: "py_error + 'a \<Rightarrow> ('a \<Rightarrow> py_error + 'b) \<Rightarrow> py_error + 'b" where
  "bind_err m f = (case m of Inl e \<Rightarrow> Inl e | Inr x \<Rightarrow> f x)"

section \<open>Metrics calculator (\<^verbatim>\<open>calculator/metrics.py\<close>)\<close>

record performance_metrics =
  pm_strategy_code :: string
  pm_calc_date :: string
  pm_total_return :: pyfloat
  pm_annualized_return :: pyfloat
  pm_sharpe_ratio :: pyfloat
  pm_max_drawdown :: pyfloat
  pm_calmar_ratio :: pyfloat
  pm_win_rate :: pyfloat
  pm_volatility :: pyfloat
  pm_avg_margin_ratio :: pyfloat
  pm_performance_score :: pyfloat
  pm_risk_score :: pyfloat
  pm_total_score :: pyfloat

record daily_metrics =
  dm_strategy_code :: string
  dm_trade_date :: string
  dm_margin_ratio :: real
  dm_long_exposure :: real
  dm_short_exposure :: real
  dm_net_exposure :: real
  dm_gross_exposure :: real
  dm_total_position_value :: real
  dm_top1_concentration :: real
  dm_top3_concentration :: real
  dm_position_count :: nat
  dm_trade_count :: nat
  dm_turnover :: real

subsection \<open>\<^verbatim>\<open>calculate_daily_returns\<close>\<close>

text \<open>
  The data frame the function returns: the input rows sorted by trading day, and one list
  per derived column. (pandas does not fix the order of rows of equal trading day; the
  model keeps their input order.)
\<close>

record returns_frame =
  rf_rows :: "daily_equity list"
  rf_prev_equity :: "pyfloat list"
  rf_daily_return :: "pyfloat list"
  rf_cumulative_return :: "pyfloat list"
  rf_running_max :: "pyfloat list"
  rf_drawdown :: "pyfloat list"
  rf_max_drawdown :: "pyfloat list"

definition calculate_daily_returns :: "daily_equity list \<Rightarrow> returns_frame" where
  "calculate_daily_returns equity_df =
     (let df = sort_key eq_trade_date equity_df;
          equity = map (\<lambda>r. Fin (eq_equity r)) df;
          deposit_withdraw = map (\<lambda>r. Fin (eq_deposit_withdraw r)) df;
          prev_equity = pd_shift equity;
          daily_return0 = map (\<lambda>(e, p, dw). fdiv (fsub (fsub e p) dw) p)
                            (zip equity (zip prev_equity deposit_withdraw));
          daily_return = map (\<lambda>x. if isnan x then Fin 0 else x) daily_return0;
          cumulative_return = map (\<lambda>x. fsub x (Fin 1))
                                (pd_cumprod (map (\<lambda>x. fadd (Fin 1) x) daily_return));
          running_max = pd_cummax equity;
          drawdown = map (\<lambda>(rm, e). fdiv (fsub rm e) rm) (zip running_max equity);
          max_drawdown = pd_cummax drawdown
      in \<lparr>rf_rows = df,
          rf_prev_equity = prev_equity,
          rf_daily_return = daily_return,
          rf_cumulative_return = cumulative_return,
          rf_running_max = running_max,
          rf_drawdown = drawdown,
          rf_max_drawdown = max_drawdown\<rparr>)"

subsection \<open>The two scores\<close>

definition calculate_performance_score ::
  "pyfloat \<Rightarrow> pyfloat \<Rightarrow> pyfloat \<Rightarrow> pyfloat \<Rightarrow> pyfloat" where
  "calculate_performance_score total_return sharpe max_drawdown win_rate =
     (let return_score = py_min (Fin 40)
            (py_max (Fin 0) (fmul (fadd total_return (Fin 0.05)) (Fin 200)));
          sharpe_score = py_min (Fin 30) (py_max (Fin 0) (fmul sharpe (Fin 15)));
          drawdown_score = py_max (Fin 0) (fsub (Fin 20) (fmul max_drawdown (Fin 100)));
          winrate_score = fmul win_rate (Fin 10)
      in fadd (fadd (fadd return_score sharpe_score) drawdown_score) winrate_score)"

definition calculate_risk_score :: "pyfloat \<Rightarrow> pyfloat \<Rightarrow> pyfloat \<Rightarrow> pyfloat" where
  "calculate_risk_score avg_margin_ratio volatility max_drawdown =
     (let margin_score = py_max (Fin 0) (fsub (Fin 40) (fmul avg_margin_ratio (Fin 80)));
          vol_score = py_max (Fin 0) (fsub (Fin 30) (fmul volatility (Fin 60)));
          drawdown_score = py_max (Fin 0) (fsub (Fin 30) (fmul max_drawdown (Fin 150)))
      in fadd (fadd margin_score vol_score) drawdown_score)"

subsection \<open>\<^verbatim>\<open>calculate_performance\<close>\<close>

text \<open>
  The values the function computes before it rounds them (source lines 83 to 121), as a
  record of the same shape as the result.
\<close>

definition performance_unrounded ::
  "real \<Rightarrow> daily_equity list \<Rightarrow> string \<Rightarrow> py_error + performance_metrics" where
  "performance_unrounded risk_free_rate equity_df strategy_code =
     (let df = calculate_daily_returns equity_df;
          calc_date = last (sort (map eq_trade_date (rf_rows df)));
          trading_days = length (rf_rows df)
      in bind_err (iloc_last (rf_cumulative_return df)) (\<lambda>total_return.
         bind_err (if trading_days > 0
                   then bind_err (py_truediv 252 (real trading_days))
                          (\<lambda>q. Inr (fmul total_return (Fin q)))
                   else Inr (Fin 0)) (\<lambda>annualized_return.
         let daily_std = pd_std (rf_daily_return df);
             volatility = (if \<not> isnan daily_std then fmul daily_std (Fin (sqrt 252))
                           else Fin 0);
             excess_return = fsub annualized_return (Fin risk_free_rate);
             sharpe_ratio = (if flt (Fin 0) volatility then fdiv excess_return volatility
                             else Fin 0);
             max_drawdown = pd_max (rf_max_drawdown df);
             calmar_ratio = (if flt (Fin 0) max_drawdown
                             then fdiv annualized_return max_drawdown else Fin 0);
             win_days = length (filter (\<lambda>x. flt (Fin 0) x) (rf_daily_return df));
             total_days = length (filter (\<lambda>x. fne x (Fin 0)) (rf_daily_return df));
             win_rate = (if total_days > 0 then Fin (real win_days / real total_days)
                         else Fin 0);
             avg_margin_ratio0 = pd_mean (map (\<lambda>r. fdiv (Fin (eq_margin_used r))
                                                         (Fin (eq_equity r))) (rf_rows df));
             avg_margin_ratio = (if isnan avg_margin_ratio0 then Fin 0
                                 else avg_margin_ratio0);
             performance_score = calculate_performance_score total_return sharpe_ratio
                                   max_drawdown win_rate;
             risk_score = calculate_risk_score avg_margin_ratio volatility max_drawdown;
             total_score = fadd (fmul performance_score (Fin 0.5))
                                (fmul risk_score (Fin 0.5))
         in Inr \<lparr>pm_strategy_code = strategy_code,
                 pm_calc_date = calc_date,
                 pm_total_return = total_return,
                 pm_annualized_return = annualized_return,
                 pm_sharpe_ratio = sharpe_ratio,
                 pm_max_drawdown = max_drawdown,
                 pm_calmar_ratio = calmar_ratio,
                 pm_win_rate = win_rate,
                 pm_volatility = volatility,
                 pm_avg_margin_ratio = avg_margin_ratio,
                 pm_performance_score = performance_score,
                 pm_risk_score = risk_score,
                 pm_total_score = total_score\<rparr>)))"

text \<open>The rounding applied when the result is built (source lines 123 to 137).\<close>

definition round_performance :: "performance_metrics \<Rightarrow> performance_metrics" where
  "round_performance m =
     \<lparr>pm_strategy_code = pm_strategy_code m,
      pm_calc_date = pm_calc_date m,
      pm_total_return = fround (pm_total_return m) 6,
      pm_annualized_return = fround (pm_annualized_return m) 6,
      pm_sharpe_ratio = fround (pm_sharpe_ratio m) 4,
      pm_max_drawdown = fround (pm_max_drawdown m) 6,
      pm_calmar_ratio = fround (pm_calmar_ratio m) 4,
      pm_win_rate = fround (pm_win_rate m) 4,
      pm_volatility = fround (pm_volatility m) 6,
      pm_avg_margin_ratio = fround (pm_avg_margin_ratio m) 4,
      pm_performance_score = fround (pm_performance_score m) 2,
      pm_risk_score = fround (pm_risk_score m) 2,
      pm_total_score = fround (pm_total_score m) 2\<rparr>"

definition calculate_performance ::
  "real \<Rightarrow> daily_equity list \<Rightarrow> string \<Rightarrow> py_error + performance_metrics option" where
  "calculate_performance risk_free_rate equity_df strategy_code =
     (if length equity_df < 2 then Inr None
      else bind_err (performance_unrounded risk_free_rate equity_df strategy_code)
             (\<lambda>m. Inr (Some (round_performance m))))"

subsection \<open>\<^verbatim>\<open>calculate_daily_metrics\<close>\<close>

text \<open>
  \<^verbatim>\<open>''.join(filter(str.isalpha, contract.upper()))\<close>, for contract codes written in ASCII
  (letters for the product, digits for the month): \<^verbatim>\<open>upper\<close> maps \<^verbatim>\<open>a-z\<close> to \<^verbatim>\<open>A-Z\<close>,
  \<^verbatim>\<open>isalpha\<close> holds of the 52 letters.
\<close>

definition ascii_lowercase :: string where
  "ascii_lowercase = ''abcdefghijklmnopqrstuvwxyz''"

definition ascii_uppercase :: string where
  "ascii_uppercase = ''ABCDEFGHIJKLMNOPQRSTUVWXYZ''"

definition char_isalpha :: "char \<Rightarrow> bool" where
  "char_isalpha c = (c \<in> set (ascii_lowercase @ ascii_uppercase))"

definition char_upper :: "char \<Rightarrow> char" where
  "char_upper c = (case map_of (zip ascii_lowercase ascii_uppercase) c of
                     Some u \<Rightarrow> u | None \<Rightarrow> c)"

definition contract_base_of :: "string \<Rightarrow> string" where
  "contract_base_of contract = filter char_isalpha (map char_upper contract)"

text \<open>
  \<^verbatim>\<open>position_values\<close> is a dictionary from contract root to summed value, modelled by an
  association list in insertion order. \<open>dict_add\<close> is source lines 201 to 203: a new key
  starts at 0, then the value is added.
\<close>

fun dict_add :: "(string \<times> real) list \<Rightarrow> string \<Rightarrow> real \<Rightarrow> (string \<times> real) list" where
  "dict_add [] k v = [(k, 0 + v)]"
| "dict_add ((k', v') # kvs) k v =
     (if k' = k then (k', v' + v) # kvs else (k', v') # dict_add kvs k v)"

text \<open>
  One iteration of the loop over the positions (source lines 188 to 203); the state is
  \<^verbatim>\<open>(long_exposure, short_exposure, position_values)\<close>.
\<close>

definition position_step ::
  "string \<Rightarrow> real \<times> real \<times> (string \<times> real) list \<Rightarrow> position
   \<Rightarrow> real \<times> real \<times> (string \<times> real) list" where
  "position_step trade_date st pos =
     (case st of (long_exposure, short_exposure, position_values) \<Rightarrow>
        if pos_trade_date pos \<noteq> trade_date then st
        else
          let value = pos_position_value pos;
              contract_base = contract_base_of (pos_contract pos);
              long_exposure' = (if pos_long_qty pos > 0 then long_exposure + value
                                else long_exposure);
              short_exposure' = (if pos_short_qty pos > 0 then short_exposure + value
                                 else short_exposure)
          in (long_exposure', short_exposure', dict_add position_values contract_base value))"

definition accumulate_positions ::
  "string \<Rightarrow> position list \<Rightarrow> real \<times> real \<times> (string \<times> real) list" where
  "accumulate_positions trade_date positions =
     foldl (position_step trade_date) (0, 0, []) positions"

definition list_first :: "'a list \<Rightarrow> py_error + 'a" where
  "list_first xs = (case xs of [] \<Rightarrow> Inl IndexError | x # _ \<Rightarrow> Inr x)"

text \<open>
  The values computed after the guard on the equity and before rounding (source lines
  180 to 224), as a record of the same shape as the result.
\<close>

definition daily_metrics_unrounded ::
  "daily_equity \<Rightarrow> position list \<Rightarrow> trade list \<Rightarrow> py_error + daily_metrics" where
  "daily_metrics_unrounded equity_row positions trades =
     (let strategy_code = eq_strategy_code equity_row;
          trade_date = eq_trade_date equity_row;
          equity = eq_equity equity_row
      in bind_err (if equity > 0 then py_truediv (eq_margin_used equity_row) equity
                   else Inr 0) (\<lambda>margin_ratio.
         case accumulate_positions trade_date positions of
           (long_exposure, short_exposure, position_values) \<Rightarrow>
         let total_position_value = long_exposure + short_exposure
         in bind_err (if equity > 0 then py_truediv (long_exposure - short_exposure) equity
                      else Inr 0) (\<lambda>net_exposure.
            bind_err (if equity > 0 then py_truediv total_position_value equity
                      else Inr 0) (\<lambda>gross_exposure.
            bind_err
              (if position_values \<noteq> [] then
                 let sorted_values = sort_reverse (\<lambda>v. v) (map snd position_values)
                 in bind_err (if total_position_value > 0
                              then bind_err (list_first sorted_values)
                                     (\<lambda>v. py_truediv v total_position_value)
                              else Inr 0) (\<lambda>top1_concentration.
                    let top3_sum = sum_list (take 3 sorted_values)
                    in bind_err (if total_position_value > 0
                                 then py_truediv top3_sum total_position_value
                                 else Inr 0) (\<lambda>top3_concentration.
                       Inr (top1_concentration, top3_concentration,
                            length position_values)))
               else Inr (0, 0, 0))
              (\<lambda>(top1_concentration, top3_concentration, position_count).
            let day_trades = filter (\<lambda>t. trd_trade_date t = trade_date) trades;
                trade_count = length day_trades;
                turnover = sum_list (map trd_amount day_trades)
            in Inr \<lparr>dm_strategy_code = strategy_code,
                    dm_trade_date = trade_date,
                    dm_margin_ratio = margin_ratio,
                    dm_long_exposure = long_exposure,
                    dm_short_exposure = short_exposure,
                    dm_net_exposure = net_exposure,
                    dm_gross_exposure = gross_exposure,
                    dm_total_position_value = total_position_value,
                    dm_top1_concentration = top1_concentration,
                    dm_top3_concentration = top3_concentration,
                    dm_position_count = position_count,
                    dm_trade_count = trade_count,
                    dm_turnover = turnover\<rparr>)))))"

text \<open>The rounding applied when the result is built (source lines 226 to 240).\<close>

definition round_daily_metrics :: "daily_metrics \<Rightarrow> daily_metrics" where
  "round_daily_metrics m =
     \<lparr>dm_strategy_code = dm_strategy_code m,
      dm_trade_date = dm_trade_date m,
      dm_margin_ratio = py_round (dm_margin_ratio m) 4,
      dm_long_exposure = py_round (dm_long_exposure m) 2,
      dm_short_exposure = py_round (dm_short_exposure m) 2,
      dm_net_exposure = py_round (dm_net_exposure m) 6,
      dm_gross_exposure = py_round (dm_gross_exposure m) 6,
      dm_total_position_value = py_round (dm_total_position_value m) 2,
      dm_top1_concentration = py_round (dm_top1_concentration m) 4,
      dm_top3_concentration = py_round (dm_top3_concentration m) 4,
      dm_position_count = dm_position_count m,
      dm_trade_count = dm_trade_count m,
      dm_turnover = py_round (dm_turnover m) 2\<rparr>"

definition calculate_daily_metrics ::
  "daily_equity \<Rightarrow> position list \<Rightarrow> trade list \<Rightarrow> py_error + daily_metrics option" where
  "calculate_daily_metrics equity_row positions trades =
     (if eq_equity equity_row \<le> 0 then Inr None
      else bind_err (daily_metrics_unrounded equity_row positions trades)
             (\<lambda>m. Inr (Some (round_daily_metrics m))))"

section \<open>The claims' wording, as definitions\<close>

text \<open>
  The definitions of this section follow the words of the specification, not the code;
  the refinement theorems below compare them with the detectors.
\<close>

subsection \<open>Floating-loss add-on\<close>








subsection \<open>Counter-trend add-on\<close>

text \<open>
  The position that gives the price move of the trade's contract on the trade's day: of
  the same strategy's positions in that contract on that day, the last one.
\<close>

definition spec_price_position :: "position list \<Rightarrow> trade \<Rightarrow> position option" where
  "spec_price_position positions t =
     (case filter (\<lambda>p. pos_strategy_code p = trd_strategy_code t
                       \<and> pos_contract p = trd_contract t
                       \<and> pos_trade_date p = trd_trade_date t) positions of
        [] \<Rightarrow> None
      | p # ps \<Rightarrow> Some (last (p # ps)))"

definition spec_change :: "position \<Rightarrow> real" where
  "spec_change p =
     (if pos_prev_settlement p \<le> 0 then 0 else pos_settlement p - pos_prev_settlement p)"

definition spec_change_pct :: "position \<Rightarrow> real" where
  "spec_change_pct p =
     (if pos_prev_settlement p \<le> 0 then 0
      else (pos_settlement p - pos_prev_settlement p) / pos_prev_settlement p)"

definition spec_is_counter_trend :: "string \<Rightarrow> real \<Rightarrow> bool" where
  "spec_is_counter_trend direction change =
     ((direction = direction_buy \<and> change < 0) \<or> (direction = direction_sell \<and> change > 0))"

definition spec_trend_severity :: "real \<Rightarrow> string" where
  "spec_trend_severity change_pct =
     (if \<bar>change_pct\<bar> > 3 / 100 then ''high''
      else if \<bar>change_pct\<bar> > 15 / 1000 then ''medium'' else ''low'')"

definition spec_counter_trend_alert :: "trade \<Rightarrow> position \<Rightarrow> behavior_alert" where
  "spec_counter_trend_alert t p =
     \<lparr>al_strategy_code = trd_strategy_code t,
      al_trade_date = trd_trade_date t,
      al_alert_type = ''counter_trend_add'',
      al_severity = spec_trend_severity (spec_change_pct p),
      al_contract = trd_contract t,
      al_description = CounterTrendText (trd_contract t)
        (if trd_direction t = direction_buy then FallBuy \<bar>spec_change_pct p\<bar>
         else RiseSell (spec_change_pct p))
        (trd_quantity t),
      al_details = CounterTrendDetails
        \<lparr>cd_direction = trd_direction t,
         cd_price_change = py_round (spec_change p) 2,
         cd_change_pct = py_round (spec_change_pct p) 4,
         cd_quantity = trd_quantity t,
         cd_price = trd_price t,
         cd_settlement = pos_settlement p,
         cd_prev_settlement = pos_prev_settlement p\<rparr>\<rparr>"

definition spec_counter_trend :: "position list \<Rightarrow> trade \<Rightarrow> behavior_alert list" where
  "spec_counter_trend positions t =
     (if trd_offset_flag t = offset_open then
        (case spec_price_position positions t of
           None \<Rightarrow> []
         | Some p \<Rightarrow>
            if spec_is_counter_trend (trd_direction t) (spec_change p)
            then [spec_counter_trend_alert t p] else [])
      else [])"

subsection \<open>Concentration fractions\<close>


section \<open>Example inputs\<close>

definition mk_position ::
  "string \<Rightarrow> string \<Rightarrow> string \<Rightarrow> int \<Rightarrow> int \<Rightarrow> real \<Rightarrow> real \<Rightarrow> real \<Rightarrow> real \<Rightarrow> position" where
  "mk_position sc d c lq sq prev settle pnl v =
     \<lparr>pos_strategy_code = sc, pos_trade_date = d, pos_contract = c,
      pos_long_qty = lq, pos_long_price = 0, pos_short_qty = sq, pos_short_price = 0,
      pos_prev_settlement = prev, pos_settlement = settle, pos_floating_pnl = pnl,
      pos_position_value = v, pos_margin = 0, pos_exchange = ''SHFE'', pos_open_date = d\<rparr>"

definition mk_trade ::
  "string \<Rightarrow> string \<Rightarrow> string \<Rightarrow> string \<Rightarrow> string \<Rightarrow> real \<Rightarrow> int \<Rightarrow> real \<Rightarrow> trade" where
  "mk_trade sc d c dir off p q amt =
     \<lparr>trd_strategy_code = sc, trd_trade_date = d, trd_contract = c, trd_trade_id = ''1'',
      trd_trade_time = ''09:00:00'', trd_direction = dir, trd_offset_flag = off,
      trd_price = p, trd_quantity = q, trd_amount = amt, trd_commission = 0,
      trd_realized_pnl = 0, trd_exchange = ''SHFE''\<rparr>"

definition mk_equity :: "string \<Rightarrow> string \<Rightarrow> real \<Rightarrow> real \<Rightarrow> real \<Rightarrow> daily_equity" where
  "mk_equity sc d e dw m =
     \<lparr>eq_strategy_code = sc, eq_trade_date = d, eq_prev_balance = 0,
      eq_deposit_withdraw = dw, eq_realized_pnl = 0, eq_commission = 0,
      eq_current_balance = e, eq_floating_pnl = 0, eq_equity = e, eq_margin_used = m,
      eq_available_funds = 0, eq_risk_degree = 0\<rparr>"

section \<open>Auxiliary definitions for the proofs\<close>

text \<open>The nested lookup \<^verbatim>\<open>price_history[contract][trade_date]\<close>, when both keys exist.\<close>

definition price_lookup :: "price_history \<Rightarrow> string \<Rightarrow> string \<Rightarrow> price_info option" where
  "price_lookup ph c d = (case ph c of None \<Rightarrow> None | Some m \<Rightarrow> m d)"

text \<open>The entry that the loop of source lines 155 to 168 stores for a position.\<close>

definition price_entry :: "position \<Rightarrow> price_info" where
  "price_entry p =
     \<lparr>pi_settlement = pos_settlement p,
      pi_prev_settlement = pos_prev_settlement p,
      pi_change = (if pos_prev_settlement p > 0
                   then pos_settlement p - pos_prev_settlement p else 0),
      pi_change_pct = (if pos_prev_settlement p > 0
                       then (pos_settlement p - pos_prev_settlement p) / pos_prev_settlement p
                       else 0)\<rparr>"

text \<open>A finite value that is not negative; a finite value inside a band.\<close>

definition fin_nonneg :: "pyfloat \<Rightarrow> bool" where
  "fin_nonneg x = (case x of Fin r \<Rightarrow> 0 \<le> r | _ \<Rightarrow> False)"

definition fin_in :: "real \<Rightarrow> real \<Rightarrow> pyfloat \<Rightarrow> bool" where
  "fin_in lo hi x = (case x of Fin r \<Rightarrow> lo \<le> r \<and> r \<le> hi | _ \<Rightarrow> False)"

definition is_fin :: "pyfloat \<Rightarrow> bool" where
  "is_fin x = (case x of Fin r \<Rightarrow> True | _ \<Rightarrow> False)"


text \<open>The aggregation by contract root alone, over positions already filtered by day.\<close>

definition add_values :: "(string \<times> real) list \<Rightarrow> position list \<Rightarrow> (string \<times> real) list" where
  "add_values pv qs =
     foldl (\<lambda>pv p. dict_add pv (contract_base_of (pos_contract p)) (pos_position_value p))
       pv qs"

section \<open>Properties of the behaviour detector\<close>

text \<open>
  C9. For fixed positions and trades, \<^verbatim>\<open>detect_all\<close> and \<^verbatim>\<open>detect_floating_loss_add\<close>
  return the same result for any two values of the \<^verbatim>\<open>equity_data\<close> argument: the output
  never depends on it.
\<close>

theorem detect_all_ignores_equity_data:
  "detect_all positions trades equity_data1 = detect_all positions trades equity_data2
   \<and> detect_floating_loss_add positions trades equity_data1
       = detect_floating_loss_add positions trades equity_data2"
  by (simp add: detect_all_def detect_floating_loss_add_def)

text \<open>
  C1. Within each strategy's list, \<^verbatim>\<open>detect_all\<close> is claimed to put the alerts of a
  trading day in order of severity, most severe first. The sort key is the pair of trading
  day and severity rank (high 0, medium 1, low 2) and the sort is reversed as a whole, so
  the rank is descending too: on the input below, two floating-loss alerts of one strategy
  and one day, the low alert comes before the high one.
\<close>

theorem detect_all_same_day_low_before_high:
  "map (\<lambda>(strategy_code, alerts). (strategy_code, map al_severity alerts))
     (detect_all
        [mk_position ''s1'' ''2025-12-10'' ''rb2605'' 10 0 0 0 (- 600) 10000,
         mk_position ''s1'' ''2025-12-10'' ''ag2602'' 10 0 0 0 (- 100) 10000]
        [mk_trade ''s1'' ''2025-12-10'' ''rb2605'' direction_buy offset_open 3000 3 90000,
         mk_trade ''s1'' ''2025-12-10'' ''ag2602'' direction_buy offset_open 7000 3 90000]
        [])
   = [(''s1'', [''low'', ''high''])]"
  by (simp add: detect_all_def detect_floating_loss_add_def detect_counter_trend_add_def
      floating_loss_day_def floating_loss_check_def counter_trend_check_def
      build_price_history_def price_history_add_def unique_def sort_reverse_def
      alert_sort_key_def severity_order_def mk_position_def mk_trade_def
      py_round_def round_half_even_def Let_def offset_open_def direction_buy_def)

subsection \<open>Lists grouped by a key\<close>

lemma distinct_unique: "distinct (unique xs)"
  by (simp add: unique_def)

lemma set_unique: "set (unique xs) = set xs"
  by (simp add: unique_def)

lemma concat_map_filter_cong:
  "(\<And>x. x \<in> set xs \<Longrightarrow> P x \<Longrightarrow> f x = g x) \<Longrightarrow>
   concat (map f (filter P xs)) = concat (map g (filter P xs))"
  by (induction xs) auto

lemma concat_map_filter_irrelevant:
  "(\<And>x. x \<in> set xs \<Longrightarrow> P x \<Longrightarrow> \<not> Q x \<Longrightarrow> G x = []) \<Longrightarrow>
   concat (map G (filter (\<lambda>x. Q x \<and> P x) xs)) = concat (map G (filter P xs))"
  by (induction xs) auto

lemma mset_concat_filter_disj:
  "(\<And>x. x \<in> set xs \<Longrightarrow> \<not> (A x \<and> B x)) \<Longrightarrow>
   mset (concat (map G (filter (\<lambda>x. A x \<or> B x) xs)))
   = mset (concat (map G (filter A xs))) + mset (concat (map G (filter B xs)))"
  by (induction xs) auto

text \<open>
  Looping over distinct keys and, for each key, over the elements that carry it, visits
  every element whose key is among them exactly once.
\<close>

lemma mset_concat_partition:
  "distinct ks \<Longrightarrow>
   mset (concat (map (\<lambda>k. concat (map G (filter (\<lambda>x. key x = k \<and> P x) xs))) ks))
   = mset (concat (map G (filter (\<lambda>x. key x \<in> set ks \<and> P x) xs)))"
proof (induction ks)
  case Nil
  then show ?case by simp
next
  case (Cons k ks)
  have "filter (\<lambda>x. key x \<in> set (k # ks) \<and> P x) xs
        = filter (\<lambda>x. (key x = k \<and> P x) \<or> (key x \<in> set ks \<and> P x)) xs"
    by (auto intro: filter_cong)
  moreover have "mset (concat (map G
        (filter (\<lambda>x. (key x = k \<and> P x) \<or> (key x \<in> set ks \<and> P x)) xs)))
     = mset (concat (map G (filter (\<lambda>x. key x = k \<and> P x) xs)))
       + mset (concat (map G (filter (\<lambda>x. key x \<in> set ks \<and> P x) xs)))"
    using Cons.prems by (intro mset_concat_filter_disj) auto
  ultimately show ?case using Cons by simp
qed

subsection \<open>The floating-loss detector against its specification\<close>













subsection \<open>The counter-trend detector against its specification\<close>

lemma price_lookup_add:
  "price_lookup (price_history_add ph p) c d =
     (if pos_contract p = c \<and> pos_trade_date p = d then Some (price_entry p)
      else price_lookup ph c d)"
  by (auto simp: price_lookup_def price_history_add_def Let_def price_entry_def
      split: option.splits)

text \<open>A later position of the same contract and day overwrites the entry of an earlier one.\<close>

lemma price_lookup_foldl:
  "price_lookup (foldl price_history_add ph ps) c d =
     (case filter (\<lambda>p. pos_contract p = c \<and> pos_trade_date p = d) ps of
        [] \<Rightarrow> price_lookup ph c d
      | q # qs \<Rightarrow> Some (price_entry (last (q # qs))))"
proof (induction ps arbitrary: ph)
  case Nil
  then show ?case by simp
next
  case (Cons p ps)
  show ?case
    by (simp add: Cons.IH price_lookup_add split: list.splits)
qed

lemma price_lookup_build:
  assumes sc: "trd_strategy_code t = sc"
  shows "price_lookup (build_price_history (filter (\<lambda>p. pos_strategy_code p = sc) ps))
           (trd_contract t) (trd_trade_date t)
         = map_option price_entry (spec_price_position ps t)"
proof -
  have f: "filter (\<lambda>p. pos_contract p = trd_contract t \<and> pos_trade_date p = trd_trade_date t)
             (filter (\<lambda>p. pos_strategy_code p = sc) ps)
           = filter (\<lambda>p. pos_strategy_code p = trd_strategy_code t
                       \<and> pos_contract p = trd_contract t
                       \<and> pos_trade_date p = trd_trade_date t) ps"
    using sc by (auto intro: filter_cong)
  show ?thesis
    unfolding build_price_history_def price_lookup_foldl f spec_price_position_def
    by (simp add: price_lookup_def split: list.splits)
qed

lemma price_entry_spec:
  "price_entry p =
     \<lparr>pi_settlement = pos_settlement p, pi_prev_settlement = pos_prev_settlement p,
      pi_change = spec_change p, pi_change_pct = spec_change_pct p\<rparr>"
  by (simp add: price_entry_def spec_change_def spec_change_pct_def)

lemma spec_trend_severity_code:
  "spec_trend_severity r =
     (if \<bar>r\<bar> > 0.03 then ''high'' else if \<bar>r\<bar> > 0.015 then ''medium'' else ''low'')"
  by (simp add: spec_trend_severity_def)

lemma counter_trend_check_lookup:
  "counter_trend_check sc ph t =
     (if trd_offset_flag t = offset_open then
        (case price_lookup ph (trd_contract t) (trd_trade_date t) of
           None \<Rightarrow> []
         | Some info \<Rightarrow>
             if spec_is_counter_trend (trd_direction t) (pi_change info)
             then [\<lparr>al_strategy_code = sc,
                    al_trade_date = trd_trade_date t,
                    al_alert_type = ''counter_trend_add'',
                    al_severity = spec_trend_severity (pi_change_pct info),
                    al_contract = trd_contract t,
                    al_description = CounterTrendText (trd_contract t)
                       (if trd_direction t = direction_buy then FallBuy \<bar>pi_change_pct info\<bar>
                        else RiseSell (pi_change_pct info)) (trd_quantity t),
                    al_details = CounterTrendDetails
                      \<lparr>cd_direction = trd_direction t,
                       cd_price_change = py_round (pi_change info) 2,
                       cd_change_pct = py_round (pi_change_pct info) 4,
                       cd_quantity = trd_quantity t,
                       cd_price = trd_price t,
                       cd_settlement = pi_settlement info,
                       cd_prev_settlement = pi_prev_settlement info\<rparr>\<rparr>]
             else [])
      else [])"
  by (auto simp: counter_trend_check_def price_lookup_def Let_def spec_is_counter_trend_def
      spec_trend_severity_code direction_buy_def direction_sell_def split: option.splits)

lemma counter_trend_check_spec:
  assumes "trd_strategy_code t = sc"
  shows "counter_trend_check sc
           (build_price_history (filter (\<lambda>p. pos_strategy_code p = sc) ps)) t
         = spec_counter_trend ps t"
  unfolding counter_trend_check_lookup price_lookup_build[OF assms] spec_counter_trend_def
    spec_counter_trend_alert_def
  using assms by (cases "spec_price_position ps t") (simp_all add: price_entry_spec)

lemma spec_counter_trend_no_positions:
  assumes "trd_strategy_code t \<notin> pos_strategy_code ` set ps"
  shows "spec_counter_trend ps t = []"
proof -
  have "filter (\<lambda>p. pos_strategy_code p = trd_strategy_code t
                       \<and> pos_contract p = trd_contract t
                       \<and> pos_trade_date p = trd_trade_date t) ps = []"
    unfolding filter_empty_conv using assms by force
  then show ?thesis by (simp add: spec_counter_trend_def spec_price_position_def)
qed

lemma detect_counter_trend_add_mset:
  "mset (detect_counter_trend_add ps ts) = mset (concat (map (spec_counter_trend ps) ts))"
proof (cases "ps = [] \<or> ts = []")
  case True
  then show ?thesis
  proof
    assume "ps = []"
    then have "\<And>t. spec_counter_trend ps t = []"
      by (simp add: spec_counter_trend_def spec_price_position_def)
    then show ?thesis using \<open>ps = []\<close> by (simp add: detect_counter_trend_add_def)
  next
    assume "ts = []"
    then show ?thesis by (simp add: detect_counter_trend_add_def)
  qed
next
  case False
  let ?S = "unique (map pos_strategy_code ps)"
  let ?G = "spec_counter_trend ps"
  have per: "concat (map (counter_trend_check sc
                (build_price_history (filter (\<lambda>p. pos_strategy_code p = sc) ps)))
                (filter (\<lambda>t. trd_strategy_code t = sc \<and> True) ts))
            = concat (map ?G (filter (\<lambda>t. trd_strategy_code t = sc \<and> True) ts))" for sc
    by (rule concat_map_filter_cong) (simp add: counter_trend_check_spec)
  have "detect_counter_trend_add ps ts
      = concat (map (\<lambda>sc. concat (map (counter_trend_check sc
                (build_price_history (filter (\<lambda>p. pos_strategy_code p = sc) ps)))
                (filter (\<lambda>t. trd_strategy_code t = sc \<and> True) ts))) ?S)"
    using False by (simp add: detect_counter_trend_add_def Let_def)
  also have "\<dots> = concat (map (\<lambda>sc. concat (map ?G
                (filter (\<lambda>t. trd_strategy_code t = sc \<and> True) ts))) ?S)"
    by (simp only: per)
  finally have "mset (detect_counter_trend_add ps ts)
      = mset (concat (map ?G (filter (\<lambda>t. trd_strategy_code t \<in> set ?S \<and> True) ts)))"
    by (simp only: mset_concat_partition[OF distinct_unique])
  also have "concat (map ?G (filter (\<lambda>t. trd_strategy_code t \<in> set ?S \<and> True) ts))
      = concat (map ?G (filter (\<lambda>t. True) ts))"
    by (rule concat_map_filter_irrelevant)
       (simp add: spec_counter_trend_no_positions set_unique)
  finally show ?thesis by simp
qed

lemma counter_trend_single:
  assumes "trd_strategy_code t = pos_strategy_code p"
  shows "detect_counter_trend_add [p] [t]
         = counter_trend_check (pos_strategy_code p) (build_price_history [p]) t"
  using assms by (simp add: detect_counter_trend_add_def unique_def Let_def)

text \<open>
  C8. \<^verbatim>\<open>detect_counter_trend_add\<close> emits an alert for an opening trade exactly when its
  direction is buy while the price change of its contract on its day (settlement minus
  previous settlement, 0 when the previous settlement is not positive) is negative, or
  sell while the change is positive; a trade whose contract and day have no price-move
  entry gives nothing (as multisets: the alerts come grouped by strategy). Severity is
  high when \<open>|change_pct| > 3%\<close>, medium when \<open>> 1.5%\<close>, else low, and the 3% bound is
  exclusive: a counter-trend trade with \<open>|change_pct|\<close> exactly 0.03 gets one alert, of
  severity medium.
\<close>

theorem detect_counter_trend_add_spec:
  "mset (detect_counter_trend_add positions trades)
     = mset (concat (map (spec_counter_trend positions) trades))
   \<and> (trd_offset_flag t = offset_open
        \<and> trd_strategy_code t = pos_strategy_code p
        \<and> trd_trade_date t = pos_trade_date p
        \<and> trd_contract t = pos_contract p
        \<and> pos_prev_settlement p > 0
        \<and> \<bar>pos_settlement p - pos_prev_settlement p\<bar> = 3 / 100 * pos_prev_settlement p
        \<and> spec_is_counter_trend (trd_direction t) (pos_settlement p - pos_prev_settlement p)
      \<longrightarrow> map al_severity (detect_counter_trend_add [p] [t]) = [''medium''])"
proof (intro conjI impI)
  show "mset (detect_counter_trend_add positions trades)
     = mset (concat (map (spec_counter_trend positions) trades))"
    by (rule detect_counter_trend_add_mset)
next
  assume h: "trd_offset_flag t = offset_open
        \<and> trd_strategy_code t = pos_strategy_code p
        \<and> trd_trade_date t = pos_trade_date p
        \<and> trd_contract t = pos_contract p
        \<and> pos_prev_settlement p > 0
        \<and> \<bar>pos_settlement p - pos_prev_settlement p\<bar> = 3 / 100 * pos_prev_settlement p
        \<and> spec_is_counter_trend (trd_direction t) (pos_settlement p - pos_prev_settlement p)"
  then have sc: "trd_strategy_code t = pos_strategy_code p" by simp
  have sp: "spec_price_position [p] t = Some p"
    using h by (simp add: spec_price_position_def)
  have pct: "\<bar>spec_change_pct p\<bar> = 3 / 100"
  proof -
    have "\<bar>spec_change_pct p\<bar> = \<bar>pos_settlement p - pos_prev_settlement p\<bar> / pos_prev_settlement p"
      using h by (simp add: spec_change_pct_def abs_divide)
    also have "\<dots> = 3 / 100" using h by simp
    finally show ?thesis .
  qed
  have ch: "spec_change p = pos_settlement p - pos_prev_settlement p"
    using h by (simp add: spec_change_def)
  have "detect_counter_trend_add [p] [t] = spec_counter_trend [p] t"
    using counter_trend_single[OF sc] counter_trend_check_spec[OF sc, of "[p]"] by simp
  then show "map al_severity (detect_counter_trend_add [p] [t]) = [''medium'']"
    using h sp ch pct
    by (simp add: spec_counter_trend_def spec_counter_trend_alert_def spec_trend_severity_def)
qed

theorem detect_counter_trend_add_spec_witness:
  "trd_offset_flag (mk_trade ''s1'' ''2025-12-10'' ''rb2605'' direction_buy offset_open
       97 3 291) = offset_open
   \<and> pos_prev_settlement (mk_position ''s1'' ''2025-12-10'' ''rb2605'' 10 0 100 97 0 1000) > 0
   \<and> spec_is_counter_trend direction_buy (97 - 100)
   \<and> map al_severity (detect_counter_trend_add
         [mk_position ''s1'' ''2025-12-10'' ''rb2605'' 10 0 100 97 0 1000]
         [mk_trade ''s1'' ''2025-12-10'' ''rb2605'' direction_buy offset_open 97 3 291])
       = [''medium'']"
proof -
  let ?p = "mk_position ''s1'' ''2025-12-10'' ''rb2605'' 10 0 100 97 0 1000"
  let ?t = "mk_trade ''s1'' ''2025-12-10'' ''rb2605'' direction_buy offset_open 97 3 291"
  have h: "trd_offset_flag ?t = offset_open
        \<and> trd_strategy_code ?t = pos_strategy_code ?p
        \<and> trd_trade_date ?t = pos_trade_date ?p
        \<and> trd_contract ?t = pos_contract ?p
        \<and> pos_prev_settlement ?p > 0
        \<and> \<bar>pos_settlement ?p - pos_prev_settlement ?p\<bar> = 3 / 100 * pos_prev_settlement ?p
        \<and> spec_is_counter_trend (trd_direction ?t) (pos_settlement ?p - pos_prev_settlement ?p)"
    by (simp add: mk_position_def mk_trade_def spec_is_counter_trend_def)
  from detect_counter_trend_add_spec[of "[]" "[]" ?t ?p] h
  have "map al_severity (detect_counter_trend_add [?p] [?t]) = [''medium'']"
    by blast
  moreover have "spec_is_counter_trend direction_buy (97 - 100)"
    by (simp add: spec_is_counter_trend_def)
  ultimately show ?thesis using h by simp
qed

section \<open>Properties of the metrics calculator\<close>

subsection \<open>Rounding\<close>

lemma round_half_even_near: "\<bar>x - of_int (round_half_even x)\<bar> \<le> 1 / 2"
proof -
  define f where "f = \<lfloor>x\<rfloor>"
  define d where "d = x - of_int f"
  have d: "0 \<le> d" "d < 1" unfolding d_def f_def by linarith+
  have r: "round_half_even x =
      (if d < 1 / 2 then f else if d > 1 / 2 then f + 1 else if even f then f else f + 1)"
    by (simp add: round_half_even_def Let_def f_def d_def)
  have "x - of_int (round_half_even x) =
      (if d < 1 / 2 then d else if d > 1 / 2 then d - 1 else if even f then d else d - 1)"
    unfolding r by (simp add: d_def)
  then show ?thesis using d by (simp add: abs_if)
qed

lemma round_half_even_mono:
  assumes "x \<le> y"
  shows "round_half_even x \<le> round_half_even y"
proof (rule ccontr)
  assume "\<not> round_half_even x \<le> round_half_even y"
  then have "round_half_even y + 1 \<le> round_half_even x" by simp
  then have gap: "real_of_int (round_half_even y) + 1 \<le> real_of_int (round_half_even x)"
    by (metis of_int_1 of_int_add of_int_le_iff)
  have nx: "\<bar>x - of_int (round_half_even x)\<bar> \<le> 1 / 2"
    and ny: "\<bar>y - of_int (round_half_even y)\<bar> \<le> 1 / 2"
    by (rule round_half_even_near)+
  from gap nx ny assms have "x = y" by linarith
  with \<open>\<not> round_half_even x \<le> round_half_even y\<close> show False by simp
qed

lemma round_half_even_of_int: "round_half_even (of_int k) = k"
  by (simp add: round_half_even_def)

lemma py_round_mono: "x \<le> y \<Longrightarrow> py_round x n \<le> py_round y n"
  by (simp add: py_round_def divide_right_mono round_half_even_mono)

lemma py_round_zero: "py_round 0 n = 0"
  by (simp add: py_round_def round_half_even_def)



subsection \<open>Finite values\<close>




lemma fin_nonneg_Fin [simp]: "fin_nonneg (Fin r) = (0 \<le> r)"
  by (simp add: fin_nonneg_def)

lemma fin_in_Fin [simp]: "fin_in lo hi (Fin r) = (lo \<le> r \<and> r \<le> hi)"
  by (simp add: fin_in_def)

lemma is_fin_Fin [simp]: "is_fin (Fin r)"
  by (simp add: is_fin_def)









subsection \<open>The derived columns when every equity is positive\<close>

lemma length_cumprod_from [simp]: "length (cumprod_from acc xs) = length xs"
  by (induction xs arbitrary: acc) auto

lemma length_cummax_from [simp]: "length (cummax_from acc xs) = length xs"
  by (induction xs arbitrary: acc) auto


lemma length_pd_shift [simp]: "length (pd_shift xs) = length xs"
  by (simp add: pd_shift_def)

lemma frame_rows [simp]: "rf_rows (calculate_daily_returns df) = sort_key eq_trade_date df"
  by (simp add: calculate_daily_returns_def Let_def)

lemma frame_length_daily_return [simp]:
  "length (rf_daily_return (calculate_daily_returns df)) = length df"
  by (simp add: calculate_daily_returns_def Let_def)

lemma frame_length_cumulative_return [simp]:
  "length (rf_cumulative_return (calculate_daily_returns df)) = length df"
  by (simp add: calculate_daily_returns_def Let_def pd_cumprod_def)





















subsection \<open>\<^verbatim>\<open>calculate_performance\<close> returns\<close>

lemma performance_unrounded_result:
  assumes ne: "equity_df \<noteq> []"
  shows "\<exists>m. performance_unrounded rf equity_df sc = Inr m
     \<and> pm_max_drawdown m = pd_max (rf_max_drawdown (calculate_daily_returns equity_df))
     \<and> pm_volatility m =
         (if \<not> isnan (pd_std (rf_daily_return (calculate_daily_returns equity_df)))
          then fmul (pd_std (rf_daily_return (calculate_daily_returns equity_df)))
                 (Fin (sqrt 252))
          else Fin 0)
     \<and> pm_avg_margin_ratio m =
         (if isnan (pd_mean (map (\<lambda>r. fdiv (Fin (eq_margin_used r)) (Fin (eq_equity r)))
                        (sort_key eq_trade_date equity_df)))
          then Fin 0
          else pd_mean (map (\<lambda>r. fdiv (Fin (eq_margin_used r)) (Fin (eq_equity r)))
                        (sort_key eq_trade_date equity_df)))
     \<and> pm_win_rate m =
         (if length (filter (\<lambda>x. fne x (Fin 0))
                (rf_daily_return (calculate_daily_returns equity_df))) > 0
          then Fin (real (length (filter (\<lambda>x. flt (Fin 0) x)
                       (rf_daily_return (calculate_daily_returns equity_df))))
                    / real (length (filter (\<lambda>x. fne x (Fin 0))
                       (rf_daily_return (calculate_daily_returns equity_df)))))
          else Fin 0)
     \<and> pm_performance_score m = calculate_performance_score (pm_total_return m)
         (pm_sharpe_ratio m) (pm_max_drawdown m) (pm_win_rate m)
     \<and> pm_risk_score m = calculate_risk_score (pm_avg_margin_ratio m) (pm_volatility m)
         (pm_max_drawdown m)
     \<and> pm_total_score m = fadd (fmul (pm_performance_score m) (Fin 0.5))
         (fmul (pm_risk_score m) (Fin 0.5))"
proof -
  have c: "rf_cumulative_return (calculate_daily_returns equity_df) \<noteq> []"
    using ne frame_length_cumulative_return[of equity_df] by (metis length_0_conv)
  have n: "0 < length equity_df" using ne by simp
  show ?thesis
    unfolding performance_unrounded_def
    by (simp add: Let_def bind_err_def iloc_last_def py_truediv_def c n)
qed

lemma calculate_performance_returns:
  "calculate_performance rf equity_df sc =
     (if length equity_df < 2 then Inr None
      else Inr (Some (round_performance
             (projr (performance_unrounded rf equity_df sc)))))"
proof (cases "length equity_df < 2")
  case True
  then show ?thesis by (simp add: calculate_performance_def)
next
  case False
  then have "equity_df \<noteq> []" by auto
  from performance_unrounded_result[OF this, of rf sc]
  obtain m where "performance_unrounded rf equity_df sc = Inr m" by blast
  then show ?thesis using False by (simp add: calculate_performance_def bind_err_def)
qed

subsection \<open>\<^verbatim>\<open>calculate_daily_metrics\<close> in closed form\<close>

lemma sort_reverse_Nil_iff [simp]: "sort_reverse f xs = [] \<longleftrightarrow> xs = []"
  by (metis length_0_conv length_rev length_sort sort_reverse_def)

lemma set_sort_reverse [simp]: "set (sort_reverse f xs) = set xs"
  by (simp add: sort_reverse_def)

lemma list_first_hd: "xs \<noteq> [] \<Longrightarrow> list_first xs = Inr (hd xs)"
  by (cases xs) (simp_all add: list_first_def)

text \<open>
  With a positive equity no division meets a zero divisor and the first element is read
  of a non-empty list only: the computation succeeds, with these values.
\<close>

lemma daily_metrics_unrounded_eq:
  assumes pos: "0 < eq_equity row"
  shows "daily_metrics_unrounded row ps ts =
     (case accumulate_positions (eq_trade_date row) ps of
        (l, s, pv) \<Rightarrow>
          Inr \<lparr>dm_strategy_code = eq_strategy_code row,
               dm_trade_date = eq_trade_date row,
               dm_margin_ratio = eq_margin_used row / eq_equity row,
               dm_long_exposure = l,
               dm_short_exposure = s,
               dm_net_exposure = (l - s) / eq_equity row,
               dm_gross_exposure = (l + s) / eq_equity row,
               dm_total_position_value = l + s,
               dm_top1_concentration =
                 (if pv \<noteq> [] \<and> 0 < l + s
                  then hd (sort_reverse (\<lambda>v. v) (map snd pv)) / (l + s) else 0),
               dm_top3_concentration =
                 (if pv \<noteq> [] \<and> 0 < l + s
                  then sum_list (take 3 (sort_reverse (\<lambda>v. v) (map snd pv))) / (l + s)
                  else 0),
               dm_position_count = length pv,
               dm_trade_count = length (filter (\<lambda>t. trd_trade_date t = eq_trade_date row) ts),
               dm_turnover = sum_list (map trd_amount
                 (filter (\<lambda>t. trd_trade_date t = eq_trade_date row) ts))\<rparr>)"
proof -
  obtain l s pv where acc: "accumulate_positions (eq_trade_date row) ps = (l, s, pv)"
    by (cases "accumulate_positions (eq_trade_date row) ps") auto
  show ?thesis
    unfolding daily_metrics_unrounded_def
    using pos
    by (cases "pv = []")
       (simp_all add: Let_def acc bind_err_def py_truediv_def list_first_hd)
qed

lemma calculate_daily_metrics_returns:
  "calculate_daily_metrics row ps ts =
     (if eq_equity row \<le> 0 then Inr None
      else Inr (Some (round_daily_metrics (projr (daily_metrics_unrounded row ps ts)))))"
proof (cases "eq_equity row \<le> 0")
  case True
  then show ?thesis by (simp add: calculate_daily_metrics_def)
next
  case False
  then have "0 < eq_equity row" by simp
  from daily_metrics_unrounded_eq[OF this, of ps ts]
  obtain m where "daily_metrics_unrounded row ps ts = Inr m"
    by (cases "accumulate_positions (eq_trade_date row) ps") auto
  then show ?thesis using False by (simp add: calculate_daily_metrics_def bind_err_def)
qed

text \<open>
  C6. \<^verbatim>\<open>calculate_performance\<close> returns None if and only if fewer than 2 equity records
  are supplied, and \<^verbatim>\<open>calculate_daily_metrics\<close> returns None if and only if the equity
  row's equity is at most 0; in every other case each returns a populated result, and
  neither raises an error (no \<open>Inl\<close>: the guarded divisions never meet a zero divisor, and
  no index is read out of range).
\<close>

theorem absent_results_and_no_error:
  "(calculate_performance risk_free_rate equity_df strategy_code = Inr None
      \<longleftrightarrow> length equity_df < 2)
   \<and> (\<exists>m. calculate_performance risk_free_rate equity_df strategy_code
            = (if length equity_df < 2 then Inr None else Inr (Some m)))
   \<and> (calculate_daily_metrics equity_row positions trades = Inr None
        \<longleftrightarrow> eq_equity equity_row \<le> 0)
   \<and> (\<exists>m. calculate_daily_metrics equity_row positions trades
            = (if eq_equity equity_row \<le> 0 then Inr None else Inr (Some m)))"
  by (simp add: calculate_performance_returns calculate_daily_metrics_returns)

text \<open>
  C3. In \<^verbatim>\<open>calculate_daily_returns\<close> a day whose previous equity is zero or missing is
  claimed to get the daily return 0. Only NaN is replaced by 0: for the two-day series of
  equities 0 and 100 without deposits, the second day's division by the zero equity of
  the day before gives \<open>+inf\<close>, which stays in the column (the first day, whose previous
  equity is missing, does get 0).
\<close>

theorem daily_return_zero_prev_equity_inf:
  "rf_prev_equity (calculate_daily_returns
      [mk_equity ''s1'' ''2025-12-09'' 0 0 0, mk_equity ''s1'' ''2025-12-10'' 100 0 0])
     = [NaN, Fin 0]
   \<and> rf_daily_return (calculate_daily_returns
      [mk_equity ''s1'' ''2025-12-09'' 0 0 0, mk_equity ''s1'' ''2025-12-10'' 100 0 0])
     = [Fin 0, PInf]"
  by (simp add: calculate_daily_returns_def mk_equity_def pd_shift_def fsub_def isnan_def
      Let_def)

subsection \<open>The scores\<close>


text \<open>
  Outside the hypothesis of the theorem below the risk score leaves its band: its margin
  component is only clamped from below. An account in deficit (equity -100 on both days)
  with margin 50 has the average margin ratio -0.5 and the risk score 140.
\<close>

lemma risk_score_of_deficit_account:
  "calculate_performance 0.03
     [mk_equity ''s1'' ''2025-12-09'' (- 100) 0 50, mk_equity ''s1'' ''2025-12-10'' (- 100) 0 50]
     ''s1''
   = Inr (Some \<lparr>pm_strategy_code = ''s1'', pm_calc_date = ''2025-12-10'',
      pm_total_return = Fin 0, pm_annualized_return = Fin 0, pm_sharpe_ratio = Fin 0,
      pm_max_drawdown = Fin 0, pm_calmar_ratio = Fin 0, pm_win_rate = Fin 0,
      pm_volatility = Fin 0, pm_avg_margin_ratio = Fin (- 0.5),
      pm_performance_score = Fin 30, pm_risk_score = Fin 140, pm_total_score = Fin 85\<rparr>)"
  by (simp add: calculate_performance_def round_performance_def performance_unrounded_def
      calculate_daily_returns_def mk_equity_def pd_shift_def pd_cumprod_def pd_cummax_def
      fsub_def isnan_def fmax_def Let_def bind_err_def iloc_last_def py_truediv_def
      pd_std_def pd_max_def pd_mean_def fsum_def fne_def calculate_performance_score_def
      calculate_risk_score_def py_max_def py_min_def py_round_def round_half_even_def)




subsection \<open>The loop over the positions\<close>

lemma foldl_position_step:
  "foldl (position_step d) (l, s, pv) ps =
     (l + sum_list (map pos_position_value
            (filter (\<lambda>p. pos_trade_date p = d \<and> 0 < pos_long_qty p) ps)),
      s + sum_list (map pos_position_value
            (filter (\<lambda>p. pos_trade_date p = d \<and> 0 < pos_short_qty p) ps)),
      add_values pv (filter (\<lambda>p. pos_trade_date p = d) ps))"
proof (induction ps arbitrary: l s pv)
  case Nil
  then show ?case by (simp add: add_values_def)
next
  case (Cons p ps)
  have step: "position_step d (l, s, pv) p =
      (if pos_trade_date p = d
       then (l + (if 0 < pos_long_qty p then pos_position_value p else 0),
             s + (if 0 < pos_short_qty p then pos_position_value p else 0),
             dict_add pv (contract_base_of (pos_contract p)) (pos_position_value p))
       else (l, s, pv))"
    by (simp add: position_step_def Let_def)
  show ?case
    unfolding foldl_Cons step
    by (cases "pos_trade_date p = d") (simp_all add: Cons.IH add_values_def)
qed

lemma accumulate_positions_eq:
  "accumulate_positions d ps =
     (sum_list (map pos_position_value
            (filter (\<lambda>p. pos_trade_date p = d \<and> 0 < pos_long_qty p) ps)),
      sum_list (map pos_position_value
            (filter (\<lambda>p. pos_trade_date p = d \<and> 0 < pos_short_qty p) ps)),
      add_values [] (filter (\<lambda>p. pos_trade_date p = d) ps))"
  by (simp add: accumulate_positions_def foldl_position_step)



lemma dict_add_nonneg:
  "\<forall>x\<in>set (map snd kvs). 0 \<le> x \<Longrightarrow> 0 \<le> v \<Longrightarrow>
   \<forall>x\<in>set (map snd (dict_add kvs k v)). 0 \<le> x"
  by (induction kvs k v rule: dict_add.induct) auto

lemma add_values_nonneg:
  "\<forall>x\<in>set (map snd pv). 0 \<le> x \<Longrightarrow> \<forall>q\<in>set qs. 0 \<le> pos_position_value q \<Longrightarrow>
   \<forall>x\<in>set (map snd (add_values pv qs)). 0 \<le> x"
proof (induction qs arbitrary: pv)
  case Nil
  then show ?case by (simp add: add_values_def)
next
  case (Cons q qs)
  have "\<forall>x\<in>set (map snd (dict_add pv (contract_base_of (pos_contract q))
            (pos_position_value q))). 0 \<le> x"
    using Cons.prems by (intro dict_add_nonneg) auto
  then have "\<forall>x\<in>set (map snd (add_values (dict_add pv (contract_base_of (pos_contract q))
            (pos_position_value q)) qs)). 0 \<le> x"
    using Cons.prems by (intro Cons.IH) auto
  then show ?case by (simp add: add_values_def)
qed

lemma map_of_dict_add:
  "map_of (dict_add kvs k v) k' =
     (if k' = k then Some ((case map_of kvs k of None \<Rightarrow> 0 | Some x \<Rightarrow> x) + v)
      else map_of kvs k')"
  by (induction kvs k v rule: dict_add.induct) auto

lemma keys_dict_add: "set (map fst (dict_add kvs k v)) = insert k (set (map fst kvs))"
  by (induction kvs k v rule: dict_add.induct) auto

lemma distinct_dict_add:
  "distinct (map fst kvs) \<Longrightarrow> distinct (map fst (dict_add kvs k v))"
  by (induction kvs k v rule: dict_add.induct) (auto simp: keys_dict_add[simplified])

text \<open>
  Each root is mapped to the sum of the values of the positions of that root, whatever
  their strategy.
\<close>

lemma map_of_add_values:
  "map_of (add_values pv qs) k =
     (if filter (\<lambda>q. contract_base_of (pos_contract q) = k) qs = [] then map_of pv k
      else Some ((case map_of pv k of None \<Rightarrow> 0 | Some x \<Rightarrow> x)
                 + sum_list (map pos_position_value
                     (filter (\<lambda>q. contract_base_of (pos_contract q) = k) qs))))"
proof (induction qs arbitrary: pv)
  case Nil
  then show ?case by (simp add: add_values_def)
next
  case (Cons q qs)
  have step: "add_values pv (q # qs)
      = add_values (dict_add pv (contract_base_of (pos_contract q)) (pos_position_value q)) qs"
    by (simp add: add_values_def)
  show ?case
    unfolding step Cons.IH by (simp add: map_of_dict_add split: option.splits)
qed

lemma keys_add_values:
  "set (map fst (add_values pv qs))
   = set (map fst pv) \<union> set (map (\<lambda>q. contract_base_of (pos_contract q)) qs)"
proof (induction qs arbitrary: pv)
  case Nil
  then show ?case by (simp add: add_values_def)
next
  case (Cons q qs)
  have step: "add_values pv (q # qs)
      = add_values (dict_add pv (contract_base_of (pos_contract q)) (pos_position_value q)) qs"
    by (simp add: add_values_def)
  show ?case unfolding step Cons.IH keys_dict_add by auto
qed

lemma distinct_add_values:
  "distinct (map fst pv) \<Longrightarrow> distinct (map fst (add_values pv qs))"
proof (induction qs arbitrary: pv)
  case Nil
  then show ?case by (simp add: add_values_def)
next
  case (Cons q qs)
  have step: "add_values pv (q # qs)
      = add_values (dict_add pv (contract_base_of (pos_contract q)) (pos_position_value q)) qs"
    by (simp add: add_values_def)
  show ?case unfolding step using Cons.prems by (intro Cons.IH distinct_dict_add)
qed

lemma length_add_values:
  "length (add_values [] qs)
   = length (remdups (map (\<lambda>q. contract_base_of (pos_contract q)) qs))"
proof -
  have "length (add_values [] qs) = length (map fst (add_values [] qs))" by simp
  also have "\<dots> = card (set (map fst (add_values [] qs)))"
    using distinct_add_values[of "[]" qs] distinct_card[of "map fst (add_values [] qs)"]
    by simp
  also have "\<dots> = card (set (map (\<lambda>q. contract_base_of (pos_contract q)) qs))"
    by (simp only: keys_add_values) simp
  also have "\<dots> = length (remdups (map (\<lambda>q. contract_base_of (pos_contract q)) qs))"
    by (simp only: length_remdups_card_conv)
  finally show ?thesis .
qed

lemma add_values_Nil_iff: "add_values [] qs = [] \<longleftrightarrow> qs = []"
proof -
  have "set (map fst (add_values [] qs)) = {} \<longleftrightarrow> qs = []"
    unfolding keys_add_values by simp
  then show ?thesis by simp
qed

subsection \<open>Concentration\<close>



lemma hd_le_sum_take3:
  fixes ys :: "real list"
  assumes "ys \<noteq> []" "\<forall>y\<in>set ys. 0 \<le> y"
  shows "hd ys \<le> sum_list (take 3 ys)"
proof -
  obtain y ys' where ys: "ys = y # ys'" using assms(1) by (cases ys) auto
  have "\<forall>x\<in>set (take 2 ys'). 0 \<le> x"
    using assms(2) ys by (auto dest: in_set_takeD)
  then have "0 \<le> sum_list (take 2 ys')" by (intro sum_list_nonneg) simp
  moreover have "take 3 ys = y # take 2 ys'"
    unfolding ys by (simp add: numeral_3_eq_3 numeral_2_eq_2)
  ultimately show ?thesis using ys by simp
qed


text \<open>
  C2, as claimed: \<^verbatim>\<open>top1_concentration >= top3_concentration\<close> in every result. The top-3
  share contains the top-1 share, so the order is the other way round: two roots of values
  60 and 40 give top1 0.6 and top3 1.0.
\<close>

theorem top1_below_top3_example:
  "calculate_daily_metrics (mk_equity ''s1'' ''2025-12-10'' 1000 0 0)
     [mk_position ''s1'' ''2025-12-10'' ''rb2605'' 2 0 0 0 0 60,
      mk_position ''s1'' ''2025-12-10'' ''ag2602'' 1 0 0 0 0 40]
     []
   = Inr (Some \<lparr>dm_strategy_code = ''s1'', dm_trade_date = ''2025-12-10'',
       dm_margin_ratio = 0, dm_long_exposure = 100, dm_short_exposure = 0,
       dm_net_exposure = 0.1, dm_gross_exposure = 0.1, dm_total_position_value = 100,
       dm_top1_concentration = 0.6, dm_top3_concentration = 1,
       dm_position_count = 2, dm_trade_count = 0, dm_turnover = 0\<rparr>)
   \<and> \<not> ((0.6 :: real) \<ge> 1)"
  by (simp add: calculate_daily_metrics_def daily_metrics_unrounded_def
      round_daily_metrics_def accumulate_positions_def position_step_def
      contract_base_of_def char_isalpha_def char_upper_def ascii_lowercase_def
      ascii_uppercase_def mk_equity_def mk_position_def bind_err_def py_truediv_def
      list_first_def sort_reverse_def Let_def py_round_def round_half_even_def)

text \<open>
  C2, amended. In every result of \<^verbatim>\<open>calculate_daily_metrics\<close>,
  \<^verbatim>\<open>top3_concentration >= top1_concentration\<close> when no position of the day has a negative
  value, and both are 0 when the total position value before rounding (long plus short
  exposure) is not positive.
\<close>

theorem top3_at_least_top1:
  assumes eq: "0 < eq_equity equity_row"
    and acc: "accumulate_positions (eq_trade_date equity_row) positions
              = (long_exposure, short_exposure, position_values)"
  shows "\<exists>m. calculate_daily_metrics equity_row positions trades = Inr (Some m)
     \<and> dm_total_position_value m = py_round (long_exposure + short_exposure) 2
     \<and> ((\<forall>p\<in>set positions. pos_trade_date p = eq_trade_date equity_row
            \<longrightarrow> 0 \<le> pos_position_value p)
         \<longrightarrow> dm_top1_concentration m \<le> dm_top3_concentration m)
     \<and> (long_exposure + short_exposure \<le> 0
         \<longrightarrow> dm_top1_concentration m = 0 \<and> dm_top3_concentration m = 0)"
proof -
  let ?t = "long_exposure + short_exposure"
  let ?sorted = "sort_reverse (\<lambda>v. v) (map snd position_values)"
  let ?top1 = "if position_values \<noteq> [] \<and> 0 < ?t then hd ?sorted / ?t else 0"
  let ?top3 = "if position_values \<noteq> [] \<and> 0 < ?t then sum_list (take 3 ?sorted) / ?t else 0"
  obtain raw where raw: "daily_metrics_unrounded equity_row positions trades = Inr raw"
    and total: "dm_total_position_value raw = ?t"
    and top1: "dm_top1_concentration raw = ?top1"
    and top3: "dm_top3_concentration raw = ?top3"
    using daily_metrics_unrounded_eq[OF eq, of positions trades] by (simp add: acc)
  have res: "calculate_daily_metrics equity_row positions trades
             = Inr (Some (round_daily_metrics raw))"
    using eq raw by (simp add: calculate_daily_metrics_def bind_err_def)
  have order: "?top1 \<le> ?top3"
    if nonneg: "\<forall>p\<in>set positions. pos_trade_date p = eq_trade_date equity_row
                  \<longrightarrow> 0 \<le> pos_position_value p"
  proof (cases "position_values \<noteq> [] \<and> 0 < ?t")
    case True
    have pv: "position_values
              = add_values [] (filter (\<lambda>p. pos_trade_date p = eq_trade_date equity_row) positions)"
      using acc by (simp add: accumulate_positions_eq)
    have "\<forall>x\<in>set (map snd position_values). 0 \<le> x"
      unfolding pv using nonneg by (intro add_values_nonneg) auto
    then have "\<forall>y\<in>set ?sorted. 0 \<le> y" by simp
    moreover have "?sorted \<noteq> []" using True by simp
    ultimately have "hd ?sorted \<le> sum_list (take 3 ?sorted)" by (intro hd_le_sum_take3)
    then show ?thesis using True by (simp add: divide_right_mono)
  next
    case False
    then show ?thesis by auto
  qed
  have zero: "?top1 = 0 \<and> ?top3 = 0" if "?t \<le> 0"
    using that by simp
  show ?thesis
  proof (intro exI[of _ "round_daily_metrics raw"] conjI impI)
    show "calculate_daily_metrics equity_row positions trades
          = Inr (Some (round_daily_metrics raw))" by (rule res)
    show "dm_total_position_value (round_daily_metrics raw) = py_round ?t 2"
      by (simp add: round_daily_metrics_def total)
    show "dm_top1_concentration (round_daily_metrics raw)
          \<le> dm_top3_concentration (round_daily_metrics raw)"
      if "\<forall>p\<in>set positions. pos_trade_date p = eq_trade_date equity_row
            \<longrightarrow> 0 \<le> pos_position_value p"
      using order[OF that] by (simp add: round_daily_metrics_def top1 top3 py_round_mono)
    show "dm_top1_concentration (round_daily_metrics raw) = 0" if "?t \<le> 0"
      using zero[OF that] by (simp add: round_daily_metrics_def top1 py_round_zero)
    show "dm_top3_concentration (round_daily_metrics raw) = 0" if "?t \<le> 0"
      using zero[OF that] by (simp add: round_daily_metrics_def top3 py_round_zero)
  qed
qed

theorem top3_at_least_top1_witness:
  "0 < eq_equity (mk_equity ''s1'' ''2025-12-10'' 1000 0 0)
   \<and> accumulate_positions ''2025-12-10''
        [mk_position ''s1'' ''2025-12-10'' ''rb2605'' 2 0 0 0 0 60,
         mk_position ''s1'' ''2025-12-10'' ''ag2602'' 1 0 0 0 0 40]
      = (100, 0, [(''RB'', 60), (''AG'', 40)])
   \<and> (\<exists>m. calculate_daily_metrics (mk_equity ''s1'' ''2025-12-10'' 1000 0 0)
          [mk_position ''s1'' ''2025-12-10'' ''rb2605'' 2 0 0 0 0 60,
           mk_position ''s1'' ''2025-12-10'' ''ag2602'' 1 0 0 0 0 40] [] = Inr (Some m)
        \<and> dm_total_position_value m = py_round (100 + 0) 2
        \<and> dm_top1_concentration m \<le> dm_top3_concentration m)"
proof -
  let ?row = "mk_equity ''s1'' ''2025-12-10'' 1000 0 0"
  let ?ps = "[mk_position ''s1'' ''2025-12-10'' ''rb2605'' 2 0 0 0 0 60,
              mk_position ''s1'' ''2025-12-10'' ''ag2602'' 1 0 0 0 0 40]"
  have eq: "0 < eq_equity ?row" by (simp add: mk_equity_def)
  have acc: "accumulate_positions (eq_trade_date ?row) ?ps = (100, 0, [(''RB'', 60), (''AG'', 40)])"
    by (simp add: accumulate_positions_def position_step_def contract_base_of_def
        char_isalpha_def char_upper_def ascii_lowercase_def ascii_uppercase_def
        mk_equity_def mk_position_def Let_def)
  have nonneg: "\<forall>p\<in>set ?ps. pos_trade_date p = eq_trade_date ?row \<longrightarrow> 0 \<le> pos_position_value p"
    by (simp add: mk_position_def)
  from top3_at_least_top1[OF eq acc, of "[]"] nonneg
  have "\<exists>m. calculate_daily_metrics ?row ?ps [] = Inr (Some m)
        \<and> dm_total_position_value m = py_round (100 + 0) 2
        \<and> dm_top1_concentration m \<le> dm_top3_concentration m"
    by blast
  moreover have "eq_trade_date ?row = ''2025-12-10''" by (simp add: mk_equity_def)
  ultimately show ?thesis using eq acc by simp
qed




subsection \<open>No filter by strategy\<close>

lemma accumulate_positions_strategy:
  "accumulate_positions d (map (\<lambda>p. p\<lparr>pos_strategy_code := f p\<rparr>) ps)
   = accumulate_positions d ps"
  by (simp add: accumulate_positions_eq add_values_def filter_map comp_def foldl_map)

lemma daily_metrics_unrounded_strategy:
  "daily_metrics_unrounded row (map (\<lambda>p. p\<lparr>pos_strategy_code := f p\<rparr>) ps)
       (map (\<lambda>t. t\<lparr>trd_strategy_code := g t\<rparr>) ts)
   = daily_metrics_unrounded row ps ts"
  unfolding daily_metrics_unrounded_def
  by (simp add: accumulate_positions_strategy filter_map comp_def Let_def)

text \<open>
  C10. \<^verbatim>\<open>calculate_daily_metrics\<close> filters the positions and trades by trading day only,
  never by strategy code: the result does not change when the strategy codes of the
  positions and trades are replaced by any others, and for a positive equity the
  exposures, the number of roots, the trade count and the turnover are sums and counts
  over all positions and trades of the row's day; the value aggregated for a contract
  root is the sum over all positions of the day with that root.
\<close>

theorem daily_metrics_ignore_strategy_code:
  "calculate_daily_metrics equity_row
       (map (\<lambda>p. p\<lparr>pos_strategy_code := f p\<rparr>) positions)
       (map (\<lambda>t. t\<lparr>trd_strategy_code := g t\<rparr>) trades)
     = calculate_daily_metrics equity_row positions trades
   \<and> (0 < eq_equity equity_row \<longrightarrow>
        (\<exists>m. calculate_daily_metrics equity_row positions trades = Inr (Some m)
           \<and> dm_long_exposure m = py_round (sum_list (map pos_position_value
                (filter (\<lambda>p. pos_trade_date p = eq_trade_date equity_row
                             \<and> 0 < pos_long_qty p) positions))) 2
           \<and> dm_short_exposure m = py_round (sum_list (map pos_position_value
                (filter (\<lambda>p. pos_trade_date p = eq_trade_date equity_row
                             \<and> 0 < pos_short_qty p) positions))) 2
           \<and> dm_position_count m = length (remdups (map (\<lambda>p. contract_base_of (pos_contract p))
                (filter (\<lambda>p. pos_trade_date p = eq_trade_date equity_row) positions)))
           \<and> dm_trade_count m = length
                (filter (\<lambda>t. trd_trade_date t = eq_trade_date equity_row) trades)
           \<and> dm_turnover m = py_round (sum_list (map trd_amount
                (filter (\<lambda>t. trd_trade_date t = eq_trade_date equity_row) trades))) 2))
   \<and> map_of (snd (snd (accumulate_positions (eq_trade_date equity_row) positions))) contract_base
     = (if filter (\<lambda>p. pos_trade_date p = eq_trade_date equity_row
                        \<and> contract_base_of (pos_contract p) = contract_base) positions = []
        then None
        else Some (sum_list (map pos_position_value
               (filter (\<lambda>p. pos_trade_date p = eq_trade_date equity_row
                        \<and> contract_base_of (pos_contract p) = contract_base) positions))))"
proof (intro conjI impI)
  show "calculate_daily_metrics equity_row
       (map (\<lambda>p. p\<lparr>pos_strategy_code := f p\<rparr>) positions)
       (map (\<lambda>t. t\<lparr>trd_strategy_code := g t\<rparr>) trades)
     = calculate_daily_metrics equity_row positions trades"
    by (simp add: calculate_daily_metrics_def daily_metrics_unrounded_strategy)
next
  assume eq: "0 < eq_equity equity_row"
  obtain raw where raw: "daily_metrics_unrounded equity_row positions trades = Inr raw"
    and f: "dm_long_exposure raw = sum_list (map pos_position_value
                (filter (\<lambda>p. pos_trade_date p = eq_trade_date equity_row
                             \<and> 0 < pos_long_qty p) positions))"
      "dm_short_exposure raw = sum_list (map pos_position_value
                (filter (\<lambda>p. pos_trade_date p = eq_trade_date equity_row
                             \<and> 0 < pos_short_qty p) positions))"
      "dm_position_count raw = length (add_values []
                (filter (\<lambda>p. pos_trade_date p = eq_trade_date equity_row) positions))"
      "dm_trade_count raw = length
                (filter (\<lambda>t. trd_trade_date t = eq_trade_date equity_row) trades)"
      "dm_turnover raw = sum_list (map trd_amount
                (filter (\<lambda>t. trd_trade_date t = eq_trade_date equity_row) trades))"
    using daily_metrics_unrounded_eq[OF eq, of positions trades]
    by (simp add: accumulate_positions_eq)
  have "calculate_daily_metrics equity_row positions trades
        = Inr (Some (round_daily_metrics raw))"
    using eq raw by (simp add: calculate_daily_metrics_def bind_err_def)
  then show "\<exists>m. calculate_daily_metrics equity_row positions trades = Inr (Some m)
           \<and> dm_long_exposure m = py_round (sum_list (map pos_position_value
                (filter (\<lambda>p. pos_trade_date p = eq_trade_date equity_row
                             \<and> 0 < pos_long_qty p) positions))) 2
           \<and> dm_short_exposure m = py_round (sum_list (map pos_position_value
                (filter (\<lambda>p. pos_trade_date p = eq_trade_date equity_row
                             \<and> 0 < pos_short_qty p) positions))) 2
           \<and> dm_position_count m = length (remdups (map (\<lambda>p. contract_base_of (pos_contract p))
                (filter (\<lambda>p. pos_trade_date p = eq_trade_date equity_row) positions)))
           \<and> dm_trade_count m = length
                (filter (\<lambda>t. trd_trade_date t = eq_trade_date equity_row) trades)
           \<and> dm_turnover m = py_round (sum_list (map trd_amount
                (filter (\<lambda>t. trd_trade_date t = eq_trade_date equity_row) trades))) 2"
    using f by (intro exI[of _ "round_daily_metrics raw"])
               (simp add: round_daily_metrics_def length_add_values)
next
  show "map_of (snd (snd (accumulate_positions (eq_trade_date equity_row) positions))) contract_base
     = (if filter (\<lambda>p. pos_trade_date p = eq_trade_date equity_row
                        \<and> contract_base_of (pos_contract p) = contract_base) positions = []
        then None
        else Some (sum_list (map pos_position_value
               (filter (\<lambda>p. pos_trade_date p = eq_trade_date equity_row
                        \<and> contract_base_of (pos_contract p) = contract_base) positions))))"
    by (simp add: accumulate_positions_eq map_of_add_values)
qed

theorem daily_metrics_ignore_strategy_code_witness:
  "0 < eq_equity (mk_equity ''s1'' ''2025-12-10'' 1000 0 0)
   \<and> (\<exists>m. calculate_daily_metrics (mk_equity ''s1'' ''2025-12-10'' 1000 0 0)
          [mk_position ''s2'' ''2025-12-10'' ''rb2605'' 2 0 0 0 0 60]
          [mk_trade ''s2'' ''2025-12-10'' ''rb2605'' direction_buy offset_open 30 2 500]
        = Inr (Some m)
      \<and> dm_strategy_code m = ''s1''
      \<and> dm_long_exposure m = 60
      \<and> dm_position_count m = 1
      \<and> dm_trade_count m = 1
      \<and> dm_turnover m = 500)"
proof -
  let ?row = "mk_equity ''s1'' ''2025-12-10'' 1000 0 0"
  let ?ps = "[mk_position ''s2'' ''2025-12-10'' ''rb2605'' 2 0 0 0 0 60]"
  let ?ts = "[mk_trade ''s2'' ''2025-12-10'' ''rb2605'' direction_buy offset_open 30 2 500]"
  have eq: "0 < eq_equity ?row" by (simp add: mk_equity_def)
  from daily_metrics_ignore_strategy_code[where equity_row = ?row and positions = ?ps
      and trades = ?ts and f = "\<lambda>p. ''s1''" and g = "\<lambda>t. ''s1''"
      and contract_base = "''RB''"] eq
  obtain m where m: "calculate_daily_metrics ?row ?ps ?ts = Inr (Some m)"
    and l: "dm_long_exposure m = py_round (sum_list (map pos_position_value
                (filter (\<lambda>p. pos_trade_date p = eq_trade_date ?row
                             \<and> 0 < pos_long_qty p) ?ps))) 2"
    and c: "dm_position_count m = length (remdups (map (\<lambda>p. contract_base_of (pos_contract p))
                (filter (\<lambda>p. pos_trade_date p = eq_trade_date ?row) ?ps)))"
    and n: "dm_trade_count m = length
                (filter (\<lambda>t. trd_trade_date t = eq_trade_date ?row) ?ts)"
    and t: "dm_turnover m = py_round (sum_list (map trd_amount
                (filter (\<lambda>t. trd_trade_date t = eq_trade_date ?row) ?ts))) 2"
    by blast
  have sc: "dm_strategy_code m = ''s1''"
    using m eq
    by (auto simp: calculate_daily_metrics_def bind_err_def round_daily_metrics_def
        daily_metrics_unrounded_eq mk_equity_def split: sum.splits prod.splits if_splits)
  have "dm_long_exposure m = 60" "dm_position_count m = 1" "dm_trade_count m = 1"
    "dm_turnover m = 500"
    using l c n t
    by (simp_all add: mk_equity_def mk_position_def mk_trade_def py_round_def
        round_half_even_def)
  then show ?thesis using eq m sc by blast
qed

end
